theory Spec2Isabelle
  imports Main "HOL-Library.Sublist"
begin

section \<open>Python strings\<close>

text \<open>
  A Python \<open>str\<close> is a sequence of Unicode code points. The program handles code points
  beyond Latin-1 (the curly quotation marks U+2018, U+2019, U+201C, U+201D), so a string
  is a list of code points, each a natural number; \<open>str\<close> embeds an ASCII literal.
\<close>

type_synonym codepoint = nat
type_synonym pystr = "codepoint list"

definition str :: "string \<Rightarrow> pystr" where
  "str s = map of_char s"

definition LF :: codepoint where
  "LF = 10"

definition SPACE :: codepoint where
  "SPACE = 32"

definition DQUOTE :: codepoint where
  "DQUOTE = 34"

definition SQUOTE :: codepoint where
  "SQUOTE = 39"

definition BACKSLASH :: codepoint where
  "BACKSLASH = 92"

text \<open>
  \<open>sub in text\<close>: the substring test of Python. The empty string occurs in every string.
\<close>

fun contains :: "pystr \<Rightarrow> pystr \<Rightarrow> bool" where
  "contains sub [] = (sub = [])"
| "contains sub (c # cs) = (prefix sub (c # cs) \<or> contains sub cs)"

text \<open>
  \<open>str.isdigit\<close> and the white space that \<open>str.strip()\<close> removes are decided by the
  Unicode character database of the Python interpreter, which is not part of the
  repository: both tables are parameters of the model.
\<close>

record ucd =
  isdigit :: "codepoint \<Rightarrow> bool"
  isspace :: "codepoint \<Rightarrow> bool"

definition strip :: "ucd \<Rightarrow> pystr \<Rightarrow> pystr" where
  "strip u s = rev (dropWhile (isspace u) (rev (dropWhile (isspace u) s)))"

text \<open>The tables restricted to ASCII, for evaluating the model on concrete inputs.\<close>

definition ascii_ucd :: ucd where
  "ascii_ucd = \<lparr>isdigit = (\<lambda>c. 48 \<le> c \<and> c \<le> 57),
                isspace = (\<lambda>c. c = 32 \<or> (9 \<le> c \<and> c \<le> 13) \<or> (28 \<le> c \<and> c \<le> 31))\<rparr>"

section \<open>Errors\<close>

text \<open>
  Every exception that leaves a function of the program is a value: \<open>Inl\<close> of the
  exception, \<open>Inr\<close> of the result otherwise.
\<close>

datatype error = FileNotFoundError | NameError pystr | UnicodeDecodeError | UnicodeEncodeError

section \<open>The entry classifier \<open>should_translate\<close>\<close>

definition code_signs :: "pystr list" where
  "code_signs = map str [''('', '')'', ''_'', ''{'', ''}'', ''+'', ''='', ''['', '']'']"

definition html_signs :: "pystr list" where
  "html_signs = map str [''<'', ''>'', ''/'', ''</'', ''/>'', ''style='', ''class='']"

text \<open>The literal \<^verbatim>\<open>'.,:-_/\\'\<close>: seven characters, the last one a backslash.\<close>

definition numeric_signs :: pystr where
  "numeric_signs = str ''.,:-_/'' @ [BACKSLASH]"

text \<open>
  Line 110 of \<^verbatim>\<open>translate_po.py\<close>, between the test for code characters and the
  test for markup, is not a comment: the line has no leading \<^verbatim>\<open>#\<close>, and reads
  as the expression statement \<open>a / b\<close> over two identifiers spelt in CJK characters.
  The first identifier, U+5305 U+542B followed by \<^verbatim>\<open>HTML\<close>, is bound nowhere:
  it is no local of \<open>should_translate\<close> (whose only local is \<open>text\<close>), no name of the
  module (\<open>re\<close>, \<open>Translator\<close>, \<open>time\<close>, \<open>os\<close>, \<open>argparse\<close>, \<open>glob\<close> and the four
  functions) and no builtin. Evaluating it raises \<open>NameError\<close>.
\<close>

definition unbound_name :: pystr where
  "unbound_name = [0x5305, 0x542B] @ str ''HTML''"

definition line_110 :: "error + unit" where
  "line_110 = Inl (NameError unbound_name)"

definition should_translate :: "ucd \<Rightarrow> pystr \<Rightarrow> error + bool" where
  "should_translate u text =
     (if text = [] then Inr False
      else if list_ex (\<lambda>code_sign. contains code_sign text) code_signs then Inr False
      else (case line_110 of
              Inl e \<Rightarrow> Inl e
            | Inr _ \<Rightarrow>
                if list_ex (\<lambda>html_sign. contains html_sign text) html_signs then Inr False
                else if list_all (\<lambda>char. isdigit u char \<or> contains [char] numeric_signs)
                          (strip u text)
                then Inr False
                else Inr True))"

section \<open>\<open>str.replace\<close>\<close>

text \<open>
  \<open>s.replace(old, new)\<close> replaces every occurrence of \<open>old\<close>, scanning from the left
  and resuming after each replaced occurrence. For the empty \<open>old\<close> Python inserts
  \<open>new\<close> before every character and at the end.
\<close>

function replace :: "pystr \<Rightarrow> pystr \<Rightarrow> pystr \<Rightarrow> pystr" where
  "replace old new [] = (if old = [] then new else [])"
| "replace old new (c # cs) =
     (if old = [] then new @ c # replace old new cs
      else if prefix old (c # cs) then new @ replace old new (drop (length old) (c # cs))
      else c # replace old new cs)"
  by pat_completeness auto
termination
  by (relation "measure (\<lambda>(old, new, s). length s)") auto

section \<open>The pair pattern\<close>

text \<open>
  The pattern \<^verbatim>\<open>(msgid ")(.*?)(")\n(msgstr ")(.*?)(")\<close> with \<open>re.DOTALL\<close>. Groups 1, 3,
  4 and 6 are fixed texts; a match is known by its groups 2 and 5. The pattern that reads
  the existing catalog, \<^verbatim>\<open>msgid "(.*?)"\nmsgstr "(.*?)"\<close>, matches the same texts and
  numbers the two variable groups 1 and 2.
\<close>

record rmatch =
  english_text :: pystr
  existing_translation :: pystr

definition MSGID_OPEN :: pystr where
  "MSGID_OPEN = str ''msgid '' @ [DQUOTE]"

definition MSGSTR_OPEN :: pystr where
  "MSGSTR_OPEN = str ''msgstr '' @ [DQUOTE]"

text \<open>What stands between group 2 and group 5: group 3, the line feed and group 4.\<close>

definition SEPARATOR :: pystr where
  "SEPARATOR = [DQUOTE, LF] @ MSGSTR_OPEN"

text \<open>\<open>match.group(0)\<close>, the whole matched text.\<close>

definition group0 :: "rmatch \<Rightarrow> pystr" where
  "group0 m = MSGID_OPEN @ english_text m @ SEPARATOR @ existing_translation m @ [DQUOTE]"

text \<open>
  \<open>find_sub d s\<close> splits \<open>s\<close> at the first occurrence of \<open>d\<close>: the text before it and
  the text after it.
\<close>

fun find_sub :: "pystr \<Rightarrow> pystr \<Rightarrow> (pystr \<times> pystr) option" where
  "find_sub d [] = (if d = [] then Some ([], []) else None)"
| "find_sub d (c # cs) =
     (if prefix d (c # cs) then Some ([], drop (length d) (c # cs))
      else (case find_sub d cs of
              None \<Rightarrow> None
            | Some (before, after) \<Rightarrow> Some (c # before, after)))"

text \<open>
  A match anchored at the start of \<open>s\<close>, with the text after it. With \<open>re.DOTALL\<close> the
  dot matches every character, the line feed included. The lazy group 2 grows one
  character at a time until the rest of the pattern matches, so it ends at the first
  occurrence of the separator that is followed by a closing quote; every later
  occurrence of the separator holds a quote after the first one, so when the first one
  has no quote after it no later one exists, and trying the first is enough. The lazy
  group 5 ends at the first quote.
\<close>

definition match_here :: "pystr \<Rightarrow> (rmatch \<times> pystr) option" where
  "match_here s =
     (if prefix MSGID_OPEN s then
        (case find_sub SEPARATOR (drop (length MSGID_OPEN) s) of
           None \<Rightarrow> None
         | Some (g2, rest) \<Rightarrow>
             (case find_sub [DQUOTE] rest of
                None \<Rightarrow> None
              | Some (g5, rest') \<Rightarrow>
                  Some (\<lparr>english_text = g2, existing_translation = g5\<rparr>, rest')))
      else None)"

text \<open>
  The leftmost match in \<open>s\<close>: the text before it, the match, the text after it.
\<close>

fun search :: "pystr \<Rightarrow> (pystr \<times> rmatch \<times> pystr) option" where
  "search [] = None"
| "search (c # cs) =
     (case match_here (c # cs) of
        Some (m, rest) \<Rightarrow> Some ([], m, rest)
      | None \<Rightarrow>
          (case search cs of
             None \<Rightarrow> None
           | Some (before, m, rest) \<Rightarrow> Some (c # before, m, rest)))"

lemma find_sub_length:
  "find_sub d s = Some (before, after) \<Longrightarrow> length before + length d + length after = length s"
proof (induction s arbitrary: before)
  case Nil
  then show ?case by (simp split: if_splits)
next
  case (Cons c cs)
  show ?case
  proof (cases "prefix d (c # cs)")
    case True
    then have "length d \<le> length (c # cs)" by (rule prefix_length_le)
    with True Cons.prems show ?thesis by auto
  next
    case False
    with Cons.prems obtain b where "find_sub d cs = Some (b, after)" and "before = c # b"
      by (auto split: option.splits)
    with Cons.IH show ?thesis by fastforce
  qed
qed

lemma match_here_shorter:
  assumes "match_here s = Some (m, rest)"
  shows "length rest < length s"
proof -
  from assms have p: "prefix MSGID_OPEN s"
    by (simp add: match_here_def split: if_splits)
  from assms p obtain g2 r where
    f1: "find_sub SEPARATOR (drop (length MSGID_OPEN) s) = Some (g2, r)"
    by (auto simp: match_here_def split: option.splits)
  from assms p f1 obtain g5 where f2: "find_sub [DQUOTE] r = Some (g5, rest)"
    by (auto simp: match_here_def split: option.splits)
  from find_sub_length [OF f2] have "length rest < length r" by simp
  moreover from find_sub_length [OF f1] have "length r \<le> length s" by simp
  ultimately show ?thesis by simp
qed

lemma search_shorter:
  "search s = Some (before, m, rest) \<Longrightarrow> length rest < length s"
proof (induction s arbitrary: before)
  case Nil
  then show ?case by simp
next
  case (Cons c cs)
  show ?case
  proof (cases "match_here (c # cs)")
    case (Some a)
    with Cons.prems have "match_here (c # cs) = Some (m, rest)"
      by (cases a) simp
    then show ?thesis by (rule match_here_shorter)
  next
    case None
    with Cons.prems obtain b where "search cs = Some (b, m, rest)"
      by (auto split: option.splits)
    with Cons.IH have "length rest < length cs" by blast
    then show ?thesis by simp
  qed
qed

text \<open>\<open>re.finditer\<close>: the matches from left to right, none overlapping another.\<close>

function finditer :: "pystr \<Rightarrow> rmatch list" where
  "finditer s =
     (case search s of
        None \<Rightarrow> []
      | Some (before, m, rest) \<Rightarrow> m # finditer rest)"
  by pat_completeness auto
termination
  by (relation "measure length") (auto dest: search_shorter)

declare finditer.simps [simp del]

section \<open>The merge on texts\<close>

text \<open>
  The dictionary \<open>existing_translations\<close>, read from the output file when there is one:
  the pairs whose two groups are both non-empty, a later pair replacing an earlier one
  with the same key.
\<close>

definition remember :: "rmatch \<Rightarrow> (pystr \<rightharpoonup> pystr) \<Rightarrow> (pystr \<rightharpoonup> pystr)" where
  "remember pair d =
     (if english_text pair \<noteq> [] \<and> existing_translation pair \<noteq> []
      then d(english_text pair \<mapsto> existing_translation pair) else d)"

definition load_existing :: "pystr option \<Rightarrow> (pystr \<rightharpoonup> pystr)" where
  "load_existing output_file =
     (case output_file of
        None \<Rightarrow> Map.empty
      | Some existing_content \<Rightarrow> fold remember (finditer existing_content) Map.empty)"

text \<open>
  The translation service is outside the program. \<open>translator n text\<close> is the text of
  the reply to the call number \<open>n\<close> (counted from 0) of
  \<open>translator.translate(text, dest='zh-cn')\<close>, and \<open>None\<close> when that call raises an
  exception. The counter \<open>current_count\<close> of the source is threaded through the
  replacement function; \<open>service_calls\<close> counts the calls of the service beside it.
\<close>

type_synonym translator = "nat \<Rightarrow> pystr \<Rightarrow> pystr option"

record progress =
  current_count :: nat
  service_calls :: nat

text \<open>
  The four quotation marks replaced are U+201C, U+201D, U+2018 and U+2019. In the
  source the literal \<^verbatim>\<open>'\ n'\<close> is a backslash, a space and the letter n (the backslash
  before a space starts no escape), and the literals \<^verbatim>\<open>'\n'\<close> and \<^verbatim>\<open>' \n'\<close> hold the
  line feed character U+000A.
\<close>

definition sanitize :: "pystr \<Rightarrow> pystr" where
  "sanitize chinese_text =
     replace [SPACE, LF] [LF]
       (replace [BACKSLASH, SPACE, 110] [LF]
          (replace [0x2019] [SQUOTE]
             (replace [0x2018] [SQUOTE]
                (replace [0x201D] [DQUOTE]
                   (replace [0x201C] [DQUOTE] chinese_text)))))"

text \<open>The text \<^verbatim>\<open>msgid "..."\nmsgstr "..."\<close> that the two formatted returns build.\<close>

definition entry :: "pystr \<Rightarrow> pystr \<Rightarrow> pystr" where
  "entry msgid msgstr = MSGID_OPEN @ msgid @ [DQUOTE] @ [LF] @ MSGSTR_OPEN @ msgstr @ [DQUOTE]"

definition translate_match ::
  "ucd \<Rightarrow> translator \<Rightarrow> (pystr \<rightharpoonup> pystr) \<Rightarrow> progress \<Rightarrow> rmatch \<Rightarrow> error + (pystr \<times> progress)"
where
  "translate_match u translator existing_translations st m =
     (if english_text m = [] then Inr (group0 m, st)
      else (case existing_translations (english_text m) of
              Some cached \<Rightarrow> Inr (entry (english_text m) cached, st)
            | None \<Rightarrow>
                if existing_translation m \<noteq> [] then Inr (group0 m, st)
                else (case should_translate u (english_text m) of
                        Inl e \<Rightarrow> Inl e
                      | Inr False \<Rightarrow> Inr (group0 m, st)
                      | Inr True \<Rightarrow>
                          (case translator (service_calls st) (english_text m) of
                             None \<Rightarrow>
                               Inr (group0 m, st\<lparr>service_calls := Suc (service_calls st)\<rparr>)
                           | Some reply \<Rightarrow>
                               Inr (entry (english_text m) (sanitize reply),
                                    st\<lparr>current_count := Suc (current_count st),
                                       service_calls := Suc (service_calls st)\<rparr>)))))"

text \<open>
  \<open>total_untranslated\<close>: the generator calls \<open>should_translate\<close> on group 2 of every
  match, first of the three conditions, so an exception of the classifier leaves the sum.
\<close>

fun count_untranslated :: "ucd \<Rightarrow> (pystr \<rightharpoonup> pystr) \<Rightarrow> rmatch list \<Rightarrow> error + nat" where
  "count_untranslated u existing_translations [] = Inr 0"
| "count_untranslated u existing_translations (m # ms) =
     (case should_translate u (english_text m) of
        Inl e \<Rightarrow> Inl e
      | Inr wanted \<Rightarrow>
          (case count_untranslated u existing_translations ms of
             Inl e \<Rightarrow> Inl e
           | Inr n \<Rightarrow>
               Inr (if wanted \<and> existing_translation m = []
                       \<and> existing_translations (english_text m) = None
                    then Suc n else n)))"

text \<open>
  \<open>re.sub(pattern, repl, content)\<close> with a function \<open>repl\<close>: each match, from left to
  right, is replaced by what \<open>repl\<close> returns for it (taken as it is, with no escape
  processing), and the text between the matches is copied. An exception of \<open>repl\<close>
  leaves \<open>re.sub\<close>.
\<close>

function re_sub ::
  "(progress \<Rightarrow> rmatch \<Rightarrow> error + (pystr \<times> progress)) \<Rightarrow> progress \<Rightarrow> pystr
     \<Rightarrow> error + (pystr \<times> progress)"
where
  "re_sub repl st s =
     (case search s of
        None \<Rightarrow> Inr (s, st)
      | Some (before, m, rest) \<Rightarrow>
          (case repl st m of
             Inl e \<Rightarrow> Inl e
           | Inr (r, st') \<Rightarrow>
               (case re_sub repl st' rest of
                  Inl e \<Rightarrow> Inl e
                | Inr (out, st'') \<Rightarrow> Inr (before @ r @ out, st''))))"
  by pat_completeness auto
termination
  by (relation "measure (\<lambda>(repl, st, s). length s)") (auto dest: search_shorter)

declare re_sub.simps [simp del]

text \<open>
  The header patch. The first argument of \<open>replace\<close> is the text
  \<^verbatim>\<open>"Project-Id-Version: Odoo Server\<close>; the second is that text, a line feed character,
  a quote, and \<^verbatim>\<open>"Language: zh_CN\n"\<close> where \<^verbatim>\<open>\n\<close> is a backslash and the letter n.
\<close>

definition HEADER_OLD :: pystr where
  "HEADER_OLD = [DQUOTE] @ str ''Project-Id-Version: Odoo Server''"

definition HEADER_NEW :: pystr where
  "HEADER_NEW = [DQUOTE] @ str ''Project-Id-Version: Odoo Server'' @ [LF, DQUOTE]
                 @ [DQUOTE] @ str ''Language: zh_CN'' @ [BACKSLASH, 110, DQUOTE]"

definition header_patch :: "pystr \<Rightarrow> pystr" where
  "header_patch translated_content = replace HEADER_OLD HEADER_NEW translated_content"

text \<open>
  What a call of \<open>translate_po_file\<close> that returns has done: the text handed to
  \<open>f.write\<close>, and the two numbers of the final statistics (with the count of service
  calls).
\<close>

record outcome =
  written :: pystr
  total_untranslated :: nat
  final :: progress

text \<open>
  Lines 135 to 219 of \<open>translate_po_file\<close> without the file operations: from the text
  read from the template (\<open>content\<close>) and the text read from the output file
  (\<open>existing_content\<close>, \<open>None\<close> when there is no such file) to the text that will be
  written.
\<close>

definition translate_texts ::
  "ucd \<Rightarrow> translator \<Rightarrow> pystr \<Rightarrow> pystr option \<Rightarrow> error + outcome"
where
  "translate_texts u translator content existing_content =
     (let existing_translations = load_existing existing_content in
      case count_untranslated u existing_translations (finditer content) of
        Inl e \<Rightarrow> Inl e
      | Inr work \<Rightarrow>
          (case re_sub (translate_match u translator existing_translations)
                  \<lparr>current_count = 0, service_calls = 0\<rparr> content of
             Inl e \<Rightarrow> Inl e
           | Inr (translated_content, st) \<Rightarrow>
               Inr \<lparr>written = header_patch translated_content,
                    total_untranslated = work, final = st\<rparr>))"

section \<open>Files\<close>

text \<open>
  A file holds bytes, numbers below 256; an ASCII text is its own sequence of bytes. The
  file system maps a path to the bytes of the regular file at that path. The usage notes
  at the head of the module are for Linux (\<^verbatim>\<open>apt\<close>, \<^verbatim>\<open>source\<close>), so \<open>os.path\<close> is
  \<open>posixpath\<close> and \<open>os.linesep\<close> is the line feed. Failures of the operating system that
  depend on more than the two files (permissions, a directory where a file is expected, a
  full disk) are outside the model.
\<close>

type_synonym bytes = "nat list"
type_synonym filesystem = "pystr \<rightharpoonup> bytes"

definition CR :: codepoint where
  "CR = 13"

definition SLASH :: codepoint where
  "SLASH = 47"

text \<open>
  The codec \<open>utf-8\<close> with \<open>errors='strict'\<close>. Decoding refuses a byte that starts no
  character, a missing or wrong continuation byte, an overlong form, a surrogate and a
  code point above U+10FFFF; encoding refuses a surrogate.
\<close>

definition cont :: "nat \<Rightarrow> bool" where
  "cont b = (0x80 \<le> b \<and> b \<le> 0xBF)"

fun utf8_first :: "bytes \<Rightarrow> (codepoint \<times> bytes) option" where
  "utf8_first [] = None"
| "utf8_first (b # bs) =
     (if b < 0x80 then Some (b, bs)
      else if 0xC2 \<le> b \<and> b \<le> 0xDF then
        (case bs of
           b1 # r \<Rightarrow>
             if cont b1 then Some ((b - 0xC0) * 0x40 + (b1 - 0x80), r) else None
         | _ \<Rightarrow> None)
      else if 0xE0 \<le> b \<and> b \<le> 0xEF then
        (case bs of
           b1 # b2 # r \<Rightarrow>
             if cont b1 \<and> cont b2
                \<and> (if b = 0xE0 then 0xA0 \<le> b1 else if b = 0xED then b1 \<le> 0x9F else True)
             then Some ((b - 0xE0) * 0x1000 + (b1 - 0x80) * 0x40 + (b2 - 0x80), r)
             else None
         | _ \<Rightarrow> None)
      else if 0xF0 \<le> b \<and> b \<le> 0xF4 then
        (case bs of
           b1 # b2 # b3 # r \<Rightarrow>
             if cont b1 \<and> cont b2 \<and> cont b3
                \<and> (if b = 0xF0 then 0x90 \<le> b1 else if b = 0xF4 then b1 \<le> 0x8F else True)
             then Some ((b - 0xF0) * 0x40000 + (b1 - 0x80) * 0x1000
                          + (b2 - 0x80) * 0x40 + (b3 - 0x80), r)
             else None
         | _ \<Rightarrow> None)
      else None)"

lemma utf8_first_shorter: "utf8_first bs = Some (c, rest) \<Longrightarrow> length rest < length bs"
  by (cases bs) (auto split: if_splits list.splits)

function utf8_decode :: "bytes \<Rightarrow> error + pystr" where
  "utf8_decode bs =
     (if bs = [] then Inr []
      else (case utf8_first bs of
              None \<Rightarrow> Inl UnicodeDecodeError
            | Some (c, rest) \<Rightarrow>
                (case utf8_decode rest of
                   Inl e \<Rightarrow> Inl e
                 | Inr cs \<Rightarrow> Inr (c # cs))))"
  by pat_completeness auto
termination
  by (relation "measure length") (auto dest: utf8_first_shorter)

declare utf8_decode.simps [simp del]

definition utf8_point :: "codepoint \<Rightarrow> bytes option" where
  "utf8_point c =
     (if c < 0x80 then Some [c]
      else if c < 0x800 then Some [0xC0 + c div 0x40, 0x80 + c mod 0x40]
      else if c < 0x10000 then
        (if 0xD800 \<le> c \<and> c \<le> 0xDFFF then None
         else Some [0xE0 + c div 0x1000, 0x80 + c div 0x40 mod 0x40, 0x80 + c mod 0x40])
      else if c < 0x110000 then
        Some [0xF0 + c div 0x40000, 0x80 + c div 0x1000 mod 0x40,
              0x80 + c div 0x40 mod 0x40, 0x80 + c mod 0x40]
      else None)"

fun utf8_encode :: "pystr \<Rightarrow> error + bytes" where
  "utf8_encode [] = Inr []"
| "utf8_encode (c # cs) =
     (case utf8_point c of
        None \<Rightarrow> Inl UnicodeEncodeError
      | Some b \<Rightarrow>
          (case utf8_encode cs of
             Inl e \<Rightarrow> Inl e
           | Inr bs \<Rightarrow> Inr (b @ bs)))"

text \<open>
  \<open>open(path, 'r', encoding='utf-8')\<close> and \<open>f.read()\<close>: the bytes are decoded, and with
  the default \<open>newline=None\<close> every \<^verbatim>\<open>\r\n\<close> and every other \<^verbatim>\<open>\r\<close> is read as a line
  feed.
\<close>

fun universal_newlines :: "pystr \<Rightarrow> pystr" where
  "universal_newlines [] = []"
| "universal_newlines [c] = (if c = CR then [LF] else [c])"
| "universal_newlines (c # d # cs) =
     (if c = CR \<and> d = LF then LF # universal_newlines cs
      else if c = CR then LF # universal_newlines (d # cs)
      else c # universal_newlines (d # cs))"

definition read_text :: "bytes \<Rightarrow> error + pystr" where
  "read_text bs =
     (case utf8_decode bs of
        Inl e \<Rightarrow> Inl e
      | Inr s \<Rightarrow> Inr (universal_newlines s))"

text \<open>
  The existing translations are read when \<open>os.path.exists(output_file)\<close>.
\<close>

definition read_existing :: "filesystem \<Rightarrow> pystr \<Rightarrow> error + pystr option" where
  "read_existing fs output_file =
     (case fs output_file of
        None \<Rightarrow> Inr None
      | Some bs \<Rightarrow>
          (case read_text bs of
             Inl e \<Rightarrow> Inl e
           | Inr existing_content \<Rightarrow> Inr (Some existing_content)))"

text \<open>
  \<open>posixpath.dirname\<close>: the path up to its last slash, without the slashes at its end
  unless it is made of slashes only.
\<close>

definition dirname :: "pystr \<Rightarrow> pystr" where
  "dirname p =
     (let head = rev (dropWhile (\<lambda>c. c \<noteq> SLASH) (rev p)) in
      if head \<noteq> [] \<and> \<not> list_all (\<lambda>c. c = SLASH) head
      then rev (dropWhile (\<lambda>c. c = SLASH) (rev head))
      else head)"

text \<open>
  \<open>os.makedirs(name, exist_ok=True)\<close> raises \<open>FileNotFoundError\<close> for the empty name,
  which is what \<open>dirname\<close> gives for an output path without a directory.
\<close>

definition makedirs :: "pystr \<Rightarrow> error + unit" where
  "makedirs name = (if name = [] then Inl FileNotFoundError else Inr ())"

section \<open>\<open>translate_po_file\<close>\<close>

text \<open>
  The whole function, on the file system: the exception or the outcome, and the file
  system it leaves. The order is the one of the source: the test for the input file, the
  reading of the output file when it exists, the reading of the input file, the merge,
  \<open>os.makedirs\<close>, the writing. \<open>open(output_file, 'w')\<close> creates or empties the file
  before \<open>f.write\<close> encodes the text, so an encoding error leaves an empty file; with the
  line feed as \<open>os.linesep\<close> the text is written as it is.
\<close>

definition translate_po_file ::
  "ucd \<Rightarrow> translator \<Rightarrow> filesystem \<Rightarrow> pystr \<Rightarrow> pystr
     \<Rightarrow> (error + outcome) \<times> filesystem"
where
  "translate_po_file u translator fs input_file output_file =
     (case fs input_file of
        None \<Rightarrow> (Inl FileNotFoundError, fs)
      | Some input_bytes \<Rightarrow>
          (case read_existing fs output_file of
             Inl e \<Rightarrow> (Inl e, fs)
           | Inr existing_content \<Rightarrow>
               (case read_text input_bytes of
                  Inl e \<Rightarrow> (Inl e, fs)
                | Inr content \<Rightarrow>
                    (case translate_texts u translator content existing_content of
                       Inl e \<Rightarrow> (Inl e, fs)
                     | Inr r \<Rightarrow>
                         (case makedirs (dirname output_file) of
                            Inl e \<Rightarrow> (Inl e, fs)
                          | Inr _ \<Rightarrow>
                              (case utf8_encode (written r) of
                                 Inl e \<Rightarrow> (Inl e, fs(output_file \<mapsto> []))
                               | Inr bs \<Rightarrow> (Inr r, fs(output_file \<mapsto> bs))))))))"

section \<open>The frame of a rewriting\<close>

text \<open>
  \<open>rewrite_pairs rs s\<close> is the text \<open>s\<close> with its matched pairs, from left to right,
  replaced by the texts \<open>rs\<close>; all text outside the matches is copied. It is the yardstick
  for what \<open>re.sub\<close> may change, whatever the replacement function does.
\<close>

function rewrite_pairs :: "pystr list \<Rightarrow> pystr \<Rightarrow> pystr" where
  "rewrite_pairs rs s =
     (case search s of
        None \<Rightarrow> s
      | Some (before, m, rest) \<Rightarrow>
          (case rs of
             [] \<Rightarrow> s
           | r # rs' \<Rightarrow> before @ r @ rewrite_pairs rs' rest))"
  by pat_completeness auto
termination
  by (relation "measure (\<lambda>(rs, s). length s)") (auto dest: search_shorter)

declare rewrite_pairs.simps [simp del]

section \<open>Sample files\<close>

definition pot_path :: pystr where
  "pot_path = str ''sale/i18n/sale.pot''"

definition po_path :: pystr where
  "po_path = str ''sale/i18n/zh_CN.po''"

text \<open>Templates of one entry with an empty \<^verbatim>\<open>msgstr\<close>.\<close>

definition save_pot :: bytes where
  "save_pot = entry (str ''Save'') [] @ [LF]"

definition confirm_pot :: bytes where
  "confirm_pot = entry (str ''Confirm'') [] @ [LF]"

definition hello_pot :: bytes where
  "hello_pot = entry (str ''Hello'') [] @ [LF]"

definition cancel_pot :: bytes where
  "cancel_pot = entry (str ''Cancel'') [] @ [LF]"

text \<open>
  An existing catalog: \<^verbatim>\<open>msgid "Save"\<close> with the translation U+4FDD U+5B58, in UTF-8 the
  bytes E4 BF 9D E5 AD 98.
\<close>

definition save_po :: bytes where
  "save_po = entry (str ''Save'') [0xE4, 0xBF, 0x9D, 0xE5, 0xAD, 0x98] @ [LF]"

text \<open>
  The head of an Odoo template: \<^verbatim>\<open>msgid ""\<close>, \<^verbatim>\<open>msgstr ""\<close>,
  \<^verbatim>\<open>"Project-Id-Version: Odoo Server 17.0\n"\<close>, \<^verbatim>\<open>"Content-Type: text/plain; charset=UTF-8\n"\<close>.
\<close>

definition header_pot :: bytes where
  "header_pot =
     entry [] [] @ [LF]
     @ [DQUOTE] @ str ''Project-Id-Version: Odoo Server 17.0'' @ [BACKSLASH, 110, DQUOTE, LF]
     @ [DQUOTE] @ str ''Content-Type: text/plain; charset=UTF-8''
     @ [BACKSLASH, 110, DQUOTE, LF]"

text \<open>
  That head with the line \<^verbatim>\<open>"Language: zh_CN\n"\<close> on a line of its own after the project
  line.
\<close>

definition header_with_language :: pystr where
  "header_with_language =
     entry [] [] @ [LF]
     @ [DQUOTE] @ str ''Project-Id-Version: Odoo Server 17.0'' @ [BACKSLASH, 110, DQUOTE, LF]
     @ [DQUOTE] @ str ''Language: zh_CN'' @ [BACKSLASH, 110, DQUOTE, LF]
     @ [DQUOTE] @ str ''Content-Type: text/plain; charset=UTF-8''
     @ [BACKSLASH, 110, DQUOTE, LF]"

text \<open>
  What the code makes of \<open>header_pot\<close>: the project line is cut after \<^verbatim>\<open>Server\<close> by a
  line feed character, and the next line starts with two quotes, holds the language
  text and ends with the rest of the project line.
\<close>

definition header_as_patched :: pystr where
  "header_as_patched =
     entry [] [] @ [LF]
     @ [DQUOTE] @ str ''Project-Id-Version: Odoo Server'' @ [LF]
     @ [DQUOTE, DQUOTE] @ str ''Language: zh_CN'' @ [BACKSLASH, 110, DQUOTE]
     @ str '' 17.0'' @ [BACKSLASH, 110, DQUOTE, LF]
     @ [DQUOTE] @ str ''Content-Type: text/plain; charset=UTF-8''
     @ [BACKSLASH, 110, DQUOTE, LF]"

text \<open>
  A template with the line ends of Windows: a comment, the entry \<^verbatim>\<open>msgid ""\<close> with
  \<^verbatim>\<open>msgstr ""\<close>, a comment, each line ended by the bytes 0D 0A.
\<close>

definition crlf_pot :: bytes where
  "crlf_pot =
     str ''# Odoo'' @ [CR, LF]
     @ MSGID_OPEN @ [DQUOTE, CR, LF] @ MSGSTR_OPEN @ [DQUOTE, CR, LF]
     @ str ''# end'' @ [CR, LF]"

text \<open>
  A template with the header entry and one entry:
  \<^verbatim>\<open>msgid ""\<close>, \<^verbatim>\<open>msgstr ""\<close>, \<^verbatim>\<open>"Project-Id-Version: Odoo Server 17.0\n"\<close>, an empty line,
  \<^verbatim>\<open>#. module: sale\<close>, \<^verbatim>\<open>msgid "order_line"\<close>, \<^verbatim>\<open>msgstr ""\<close>.
\<close>

definition headed_template :: bytes where
  "headed_template =
     entry [] [] @ [LF]
     @ [DQUOTE] @ str ''Project-Id-Version: Odoo Server 17.0'' @ [BACKSLASH, 110, DQUOTE, LF]
     @ [LF] @ str ''#. module: sale'' @ [LF]
     @ entry (str ''order_line'') [] @ [LF]"

text \<open>
  An existing catalog for it: \<^verbatim>\<open>msgid "order_line"\<close> with the translation U+8BA2 U+5355
  U+884C, in UTF-8 the bytes E8 AE A2 E5 8D 95 E8 A1 8C.
\<close>

definition order_po :: bytes where
  "order_po =
     entry (str ''order_line'') [0xE8, 0xAE, 0xA2, 0xE5, 0x8D, 0x95, 0xE8, 0xA1, 0x8C] @ [LF]"

text \<open>A header that already declares its language on the line after the project line.\<close>

definition declared_header :: pystr where
  "declared_header =
     [DQUOTE] @ str ''Project-Id-Version: Odoo Server 17.0'' @ [BACKSLASH, 110, DQUOTE, LF]
     @ [DQUOTE] @ str ''Language: zh_CN'' @ [BACKSLASH, 110, DQUOTE, LF]"

section \<open>Facts about the model\<close>

subsection \<open>The classifier\<close>

text \<open>
  The classifier returns only for the empty text and for a text with a code character,
  and then it returns false; on every other text it raises at line 110.
\<close>

lemma should_translate_cases:
  "should_translate u text =
     (if text = [] \<or> list_ex (\<lambda>code_sign. contains code_sign text) code_signs
      then Inr False else Inl (NameError unbound_name))"
  by (simp add: should_translate_def line_110_def)

subsection \<open>The pattern\<close>

lemma find_sub_decomp:
  "find_sub d s = Some (before, after) \<Longrightarrow> s = before @ d @ after"
proof (induction s arbitrary: before)
  case Nil
  then show ?case by (simp split: if_splits)
next
  case (Cons c cs)
  show ?case
  proof (cases "prefix d (c # cs)")
    case True
    with Cons.prems have "before = []" and "after = drop (length d) (c # cs)"
      by simp_all
    moreover from True have "d @ drop (length d) (c # cs) = c # cs"
      by (auto elim!: prefixE)
    ultimately show ?thesis by simp
  next
    case False
    with Cons.prems obtain b where "find_sub d cs = Some (b, after)" and "before = c # b"
      by (auto split: option.splits)
    with Cons.IH show ?thesis by fastforce
  qed
qed

lemma match_here_decomp:
  assumes "match_here s = Some (m, rest)"
  shows "s = group0 m @ rest"
proof -
  from assms have p: "prefix MSGID_OPEN s"
    by (simp add: match_here_def split: if_splits)
  then obtain zs where zs: "s = MSGID_OPEN @ zs" by (auto elim: prefixE)
  from assms p obtain g2 r where
    f1: "find_sub SEPARATOR (drop (length MSGID_OPEN) s) = Some (g2, r)"
    by (auto simp: match_here_def split: option.splits)
  from assms p f1 obtain g5 where f2: "find_sub [DQUOTE] r = Some (g5, rest)"
    and m: "m = \<lparr>english_text = g2, existing_translation = g5\<rparr>"
    by (auto simp: match_here_def split: option.splits)
  from f1 zs have "zs = g2 @ SEPARATOR @ r" by (auto dest: find_sub_decomp)
  moreover from f2 have "r = g5 @ [DQUOTE] @ rest" by (rule find_sub_decomp)
  ultimately show ?thesis using zs m by (simp add: group0_def)
qed

text \<open>
  The model agrees with the pattern read as a regular expression. A match is found at
  the start of \<open>s\<close> exactly when \<open>s\<close> starts with a text of the pattern's shape
  (\<open>match_here_decomp\<close>, \<open>match_here_complete\<close>), and the match found has the shortest
  group 2 and, for that group 2, the shortest group 5, which is the choice of the two
  lazy quantifiers (\<open>match_here_lazy\<close>).
\<close>

lemma find_sub_first:
  "find_sub d s = Some (before, after) \<Longrightarrow> s = a @ d @ b \<Longrightarrow> length before \<le> length a"
proof (induction s arbitrary: before a)
  case Nil
  then show ?case by (simp split: if_splits)
next
  case (Cons c cs)
  show ?case
  proof (cases "prefix d (c # cs)")
    case True
    with Cons.prems(1) have "before = []" by simp
    then show ?thesis by simp
  next
    case False
    with Cons.prems(2) have "a \<noteq> []" by auto
    with Cons.prems(2) obtain a' where a: "a = c # a'" and cs: "cs = a' @ d @ b"
      by (cases a) auto
    from False Cons.prems(1) obtain b' where "find_sub d cs = Some (b', after)"
      and "before = c # b'"
      by (auto split: option.splits)
    with Cons.IH [OF _ cs] a show ?thesis by simp
  qed
qed

lemma find_sub_complete: "find_sub d (a @ d @ b) \<noteq> None"
proof (induction a)
  case Nil
  show ?case
  proof (cases "d @ b")
    case Nil
    then show ?thesis by simp
  next
    case (Cons x xs)
    have "prefix d (d @ b)" by simp
    with Cons have "prefix d (x # xs)" by simp
    with Cons show ?thesis by simp
  qed
next
  case (Cons c a)
  then show ?case by (auto split: option.splits)
qed

lemma match_here_complete:
  assumes "s = MSGID_OPEN @ g2 @ SEPARATOR @ g5 @ [DQUOTE] @ rest"
  shows "match_here s \<noteq> None"
proof -
  from assms have p: "prefix MSGID_OPEN s" by simp
  from assms have d: "drop (length MSGID_OPEN) s = g2 @ SEPARATOR @ (g5 @ [DQUOTE] @ rest)"
    by simp
  from find_sub_complete [of SEPARATOR g2 "g5 @ [DQUOTE] @ rest"] d
  obtain g2' r where f1: "find_sub SEPARATOR (drop (length MSGID_OPEN) s) = Some (g2', r)"
    by auto
  from find_sub_first [OF f1 d] have le: "length g2' \<le> length g2" .
  from find_sub_decomp [OF f1] d
  have eq: "g2' @ SEPARATOR @ r = g2 @ SEPARATOR @ (g5 @ [DQUOTE] @ rest)" by simp
  let ?k = "length g2' + length SEPARATOR"
  have "r = drop ?k (g2' @ SEPARATOR @ r)" by simp
  also have "\<dots> = drop ?k ((g2 @ SEPARATOR) @ (g5 @ [DQUOTE] @ rest))"
    by (simp only: eq append_assoc)
  also have "\<dots> = drop ?k (g2 @ SEPARATOR) @ (g5 @ [DQUOTE] @ rest)"
    using le by (simp only: drop_append) simp
  finally have "r = (drop ?k (g2 @ SEPARATOR) @ g5) @ [DQUOTE] @ rest" by simp
  with find_sub_complete [of "[DQUOTE]" "drop ?k (g2 @ SEPARATOR) @ g5" rest]
  obtain g5' rest' where "find_sub [DQUOTE] r = Some (g5', rest')" by auto
  with p f1 show ?thesis by (simp add: match_here_def)
qed

lemma match_here_lazy:
  assumes "match_here s = Some (m, rest)"
    and "s = MSGID_OPEN @ g2 @ SEPARATOR @ g5 @ [DQUOTE] @ rest'"
  shows "length (english_text m) \<le> length g2"
    and "english_text m = g2 \<Longrightarrow> length (existing_translation m) \<le> length g5"
proof -
  from assms(2) have d: "drop (length MSGID_OPEN) s = g2 @ SEPARATOR @ (g5 @ [DQUOTE] @ rest')"
    by simp
  from assms(1) have p: "prefix MSGID_OPEN s"
    by (simp add: match_here_def split: if_splits)
  from assms(1) p obtain e r where
    f1: "find_sub SEPARATOR (drop (length MSGID_OPEN) s) = Some (e, r)"
    by (auto simp: match_here_def split: option.splits)
  from assms(1) p f1 obtain t where f2: "find_sub [DQUOTE] r = Some (t, rest)"
    and m: "m = \<lparr>english_text = e, existing_translation = t\<rparr>"
    by (auto simp: match_here_def split: option.splits)
  from find_sub_first [OF f1 d] m show "length (english_text m) \<le> length g2" by simp
  show "length (existing_translation m) \<le> length g5" if "english_text m = g2"
  proof -
    from that m have "e = g2" by simp
    with find_sub_decomp [OF f1] d have "r = g5 @ [DQUOTE] @ rest'" by simp
    from find_sub_first [OF f2 this] m show ?thesis by simp
  qed
qed

lemma search_decomp:
  "search s = Some (before, m, rest) \<Longrightarrow> s = before @ group0 m @ rest"
proof (induction s arbitrary: before)
  case Nil
  then show ?case by simp
next
  case (Cons c cs)
  show ?case
  proof (cases "match_here (c # cs)")
    case (Some a)
    with Cons.prems have "match_here (c # cs) = Some (m, rest)" and "before = []"
      by (cases a; simp)+
    then show ?thesis by (simp add: match_here_decomp)
  next
    case None
    with Cons.prems obtain b where "search cs = Some (b, m, rest)" and "before = c # b"
      by (auto split: option.splits)
    with Cons.IH show ?thesis by fastforce
  qed
qed


lemma rewrite_pairs_same: "rewrite_pairs (map group0 (finditer s)) s = s"
proof (induction "length s" arbitrary: s rule: less_induct)
  case less
  show ?case
  proof (cases "search s")
    case None
    then show ?thesis by (simp add: rewrite_pairs.simps)
  next
    case (Some a)
    then obtain before m rest where a: "search s = Some (before, m, rest)"
      by (cases a) auto
    from a have "length rest < length s" by (rule search_shorter)
    then have "rewrite_pairs (map group0 (finditer rest)) rest = rest" by (rule less)
    moreover from a have "s = before @ group0 m @ rest" by (rule search_decomp)
    moreover from a have "finditer s = m # finditer rest" by (simp add: finditer.simps)
    moreover from a have "rewrite_pairs (group0 m # map group0 (finditer rest)) s
        = before @ group0 m @ rewrite_pairs (map group0 (finditer rest)) rest"
      by (subst rewrite_pairs.simps) simp
    ultimately show ?thesis by simp
  qed
qed

subsection \<open>The substitution\<close>

lemma re_sub_frame:
  "re_sub repl st s = Inr (out, st') \<Longrightarrow>
     \<exists>rs. list_all2 (\<lambda>m r. \<exists>a b. repl a m = Inr (r, b)) (finditer s) rs
          \<and> out = rewrite_pairs rs s"
proof (induction "length s" arbitrary: s st out rule: less_induct)
  case less
  show ?case
  proof (cases "search s")
    case None
    with less.prems have "out = s" by (simp add: re_sub.simps)
    with None show ?thesis by (simp add: finditer.simps rewrite_pairs.simps)
  next
    case (Some a)
    then obtain before m rest where a: "search s = Some (before, m, rest)"
      by (cases a) auto
    with less.prems obtain r st1 out1 where
      r: "repl st m = Inr (r, st1)" and rec: "re_sub repl st1 rest = Inr (out1, st')"
      and out: "out = before @ r @ out1"
      by (subst (asm) re_sub.simps) (auto split: sum.splits)
    from a have "length rest < length s" by (rule search_shorter)
    from less.hyps [OF this rec] obtain rs where
      rs: "list_all2 (\<lambda>m r. \<exists>a b. repl a m = Inr (r, b)) (finditer rest) rs"
      and out1: "out1 = rewrite_pairs rs rest" by blast
    from a have fi: "finditer s = m # finditer rest" by (simp add: finditer.simps)
    from a have "rewrite_pairs (r # rs) s = before @ r @ rewrite_pairs rs rest"
      by (subst rewrite_pairs.simps) simp
    with out out1 have "out = rewrite_pairs (r # rs) s" by simp
    moreover from r rs fi
    have "list_all2 (\<lambda>m r. \<exists>a b. repl a m = Inr (r, b)) (finditer s) (r # rs)" by auto
    ultimately show ?thesis by blast
  qed
qed

subsection \<open>The merge and the files\<close>

lemma translate_texts_Inr:
  assumes "translate_texts u tr content existing_content = Inr r"
  obtains work out st where
    "count_untranslated u (load_existing existing_content) (finditer content) = Inr work"
    and "re_sub (translate_match u tr (load_existing existing_content))
           \<lparr>current_count = 0, service_calls = 0\<rparr> content = Inr (out, st)"
    and "r = \<lparr>written = header_patch out, total_untranslated = work, final = st\<rparr>"
  using assms
  by (auto simp: translate_texts_def Let_def split: sum.splits prod.splits)

lemma translate_po_file_Inr:
  assumes "translate_po_file u tr fs input_file output_file = (Inr r, fs')"
  obtains input_bytes content existing_content out_bytes where
    "fs input_file = Some input_bytes"
    and "read_text input_bytes = Inr content"
    and "read_existing fs output_file = Inr existing_content"
    and "translate_texts u tr content existing_content = Inr r"
    and "utf8_encode (written r) = Inr out_bytes"
    and "fs' = fs(output_file \<mapsto> out_bytes)"
  using assms
  by (auto simp: translate_po_file_def split: option.splits sum.splits)

subsection \<open>The codec\<close>

text \<open>What the encoder writes, the decoder reads back.\<close>

lemma utf8_first_point:
  assumes "utf8_point c = Some b"
  shows "utf8_first (b @ r) = Some (c, r)"
proof -
  define q1 where "q1 = c div 0x40"
  define r1 where "r1 = c mod 0x40"
  define q2 where "q2 = q1 div 0x40"
  define r2 where "r2 = q1 mod 0x40"
  define q3 where "q3 = q2 div 0x40"
  define r3 where "r3 = q2 mod 0x40"
  have c1: "c = q1 * 0x40 + r1" and b1: "r1 < 0x40"
    by (simp_all add: q1_def r1_def)
  have c2: "q1 = q2 * 0x40 + r2" and b2: "r2 < 0x40"
    by (simp_all add: q2_def r2_def)
  have c3: "q2 = q3 * 0x40 + r3" and b3: "r3 < 0x40"
    by (simp_all add: q3_def r3_def)
  have d2: "c div 0x1000 = q2" "c div 0x40 mod 0x40 = r2"
    by (simp_all add: q2_def r2_def q1_def div_mult2_eq [symmetric])
  have d3: "c div 0x40000 = q3" "c div 0x1000 mod 0x40 = r3"
    by (simp_all add: q3_def r3_def q2_def q1_def div_mult2_eq [symmetric])
  consider (one) "c < 0x80" | (two) "0x80 \<le> c" "c < 0x800"
    | (three) "0x800 \<le> c" "c < 0x10000" "\<not> (0xD800 \<le> c \<and> c \<le> 0xDFFF)"
    | (four) "0x10000 \<le> c" "c < 0x110000"
    using assms by (auto simp: utf8_point_def split: if_splits)
  then show ?thesis
  proof cases
    case one
    with assms have "b = [c]" by (simp add: utf8_point_def)
    with one show ?thesis by simp
  next
    case two
    with assms have b: "b = [0xC0 + q1, 0x80 + r1]"
      by (simp add: utf8_point_def q1_def r1_def)
    from two c1 b1 have "2 \<le> q1" "q1 \<le> 31" by arith+
    with b b1 c1 show ?thesis by (simp add: cont_def)
  next
    case three
    with assms have b: "b = [0xE0 + q2, 0x80 + r2, 0x80 + r1]"
      by (simp add: utf8_point_def d2 r1_def)
    from three c1 b1 c2 b2 have q: "q2 \<le> 15" "q2 = 0 \<Longrightarrow> 0x20 \<le> r2"
      "q2 = 13 \<Longrightarrow> r2 \<le> 0x1F" by arith+
    from c1 c2 have "c = q2 * 0x1000 + r2 * 0x40 + r1" by simp
    with b b1 b2 q show ?thesis by (auto simp: cont_def)
  next
    case four
    with assms have b: "b = [0xF0 + q3, 0x80 + r3, 0x80 + r2, 0x80 + r1]"
      by (simp add: utf8_point_def d2 d3 r1_def r3_def)
    from four c1 b1 c2 b2 c3 b3 have q: "q3 \<le> 4" "q3 = 0 \<Longrightarrow> 0x10 \<le> r3"
      "q3 = 4 \<Longrightarrow> r3 \<le> 0xF" by arith+
    from c1 c2 c3 have "c = q3 * 0x40000 + r3 * 0x1000 + r2 * 0x40 + r1" by simp
    with b b1 b2 b3 q show ?thesis by (auto simp: cont_def)
  qed
qed

lemma utf8_point_nonempty: "utf8_point c = Some b \<Longrightarrow> b \<noteq> []"
  by (auto simp: utf8_point_def split: if_splits)

lemma utf8_roundtrip: "utf8_encode s = Inr bs \<Longrightarrow> utf8_decode bs = Inr s"
proof (induction s arbitrary: bs)
  case Nil
  then show ?case by (simp add: utf8_decode.simps)
next
  case (Cons c cs)
  from Cons.prems obtain b r where b: "utf8_point c = Some b"
    and r: "utf8_encode cs = Inr r" and bs: "bs = b @ r"
    by (auto split: option.splits sum.splits)
  from Cons.IH [OF r] have "utf8_decode r = Inr cs" .
  moreover from b have "utf8_first (b @ r) = Some (c, r)" by (rule utf8_first_point)
  moreover from b have "b @ r \<noteq> []" by (simp add: utf8_point_nonempty)
  ultimately show ?case using bs by (subst utf8_decode.simps) simp
qed

subsection \<open>Evaluation on concrete documents\<close>

lemmas literal_defs = str_def LF_def CR_def SLASH_def SPACE_def DQUOTE_def SQUOTE_def
  BACKSLASH_def MSGID_OPEN_def MSGSTR_OPEN_def SEPARATOR_def code_signs_def
  unbound_name_def HEADER_OLD_def HEADER_NEW_def entry_def group0_def pot_path_def
  po_path_def

lemmas text_defs = translate_texts_def load_existing_def remember_def finditer.simps
  re_sub.simps match_here_def translate_match_def should_translate_cases header_patch_def

lemmas file_defs = translate_po_file_def read_existing_def read_text_def
  utf8_decode.simps utf8_point_def cont_def dirname_def makedirs_def

section \<open>The claims\<close>

text \<open>
  C1. The claim: \<open>should_translate\<close> is total over all strings, returns a boolean and
  never raises. On the source text \<^verbatim>\<open>Hello\<close>, which is not empty and holds none of the
  code characters, the call reaches line 110 and raises \<open>NameError\<close>.
\<close>

theorem C1_should_translate_raises:
  "should_translate u (str ''Hello'') = Inl (NameError unbound_name)"
  by (simp add: should_translate_cases code_signs_def str_def)

text \<open>
  C2. The claim: on every non-empty text without code characters, without markup and not
  purely numeric, \<open>should_translate\<close> returns true. \<^verbatim>\<open>Save changes\<close> is such a text, and
  the call raises \<open>NameError\<close> instead of returning.
\<close>

theorem C2_plain_text_raises:
  "should_translate u (str ''Save changes'') = Inl (NameError unbound_name)"
  by (simp add: should_translate_cases code_signs_def str_def)

text \<open>
  C3. The claim: an entry whose source text has a non-empty translation in the existing
  catalog is emitted with that cached translation, without a service call. The template
  file holds \<^verbatim>\<open>msgid "Save"\<close> with an empty \<^verbatim>\<open>msgstr\<close>, the existing output file holds
  the same \<^verbatim>\<open>msgid\<close> with the translation U+4FDD U+5B58. The count of the work
  remaining, computed before the substitution, calls \<open>should_translate\<close> on \<^verbatim>\<open>Save\<close>:
  the run raises \<open>NameError\<close> and leaves both files as they were, whatever the service
  does. The catalog was read, and the replacement function, had it been called on the
  match, would have taken the cached branch.
\<close>

theorem C3_cached_entry_run_raises:
  "translate_po_file u translator [pot_path \<mapsto> save_pot, po_path \<mapsto> save_po]
       pot_path po_path
     = (Inl (NameError unbound_name), [pot_path \<mapsto> save_pot, po_path \<mapsto> save_po])
   \<and> read_text save_po = Inr (entry (str ''Save'') [0x4FDD, 0x5B58] @ [LF])
   \<and> translate_texts u translator
         (entry (str ''Save'') [] @ [LF])
         (Some (entry (str ''Save'') [0x4FDD, 0x5B58] @ [LF]))
       = Inl (NameError unbound_name)
   \<and> load_existing (Some (entry (str ''Save'') [0x4FDD, 0x5B58] @ [LF])) (str ''Save'')
       = Some [0x4FDD, 0x5B58]
   \<and> translate_match u translator
         (load_existing (Some (entry (str ''Save'') [0x4FDD, 0x5B58] @ [LF]))) st
         \<lparr>english_text = str ''Save'', existing_translation = []\<rparr>
       = Inr (entry (str ''Save'') [0x4FDD, 0x5B58], st)"
  by (simp add: file_defs text_defs literal_defs save_pot_def save_po_def)

text \<open>
  C4. The claim: a first run with no output file, then a second run on the first run's
  output, leave the second run with zero service calls and the same bytes written. The
  template file holds \<^verbatim>\<open>msgid "Confirm"\<close> with an empty \<^verbatim>\<open>msgstr\<close> and there is no output
  file: the first run raises \<open>NameError\<close> from the count of the work remaining, whatever
  the service does, and leaves the file system as it was. No output file exists to feed
  a second run, which is the first run again.
\<close>

theorem C4_first_run_writes_no_output:
  "translate_po_file u translator [pot_path \<mapsto> confirm_pot] pot_path po_path
     = (Inl (NameError unbound_name), [pot_path \<mapsto> confirm_pot])
   \<and> [pot_path \<mapsto> confirm_pot] po_path = None"
  by (simp add: file_defs text_defs literal_defs confirm_pot_def)

text \<open>
  C5. The claim: a fresh translation is emitted with its curly quotation marks made
  ASCII and with a broken newline escape repaired into a backslash followed by n. The
  template file holds \<^verbatim>\<open>msgid "Hello"\<close> with an empty \<^verbatim>\<open>msgstr\<close> and the service answers
  with U+201C U+4F60 U+597D U+201D: the run raises \<open>NameError\<close> before the service is
  called, so no translation is obtained or emitted and nothing is written. The
  statements that clean a reply, run on \<^verbatim>\<open>Line 1\ nLine 2\<close>, put a line feed character
  U+000A where the claim says a backslash followed by n.
\<close>

theorem C5_no_fresh_translation_and_line_feed:
  "translate_po_file u (\<lambda>n text. Some [0x201C, 0x4F60, 0x597D, 0x201D])
       [pot_path \<mapsto> hello_pot] pot_path po_path
     = (Inl (NameError unbound_name), [pot_path \<mapsto> hello_pot])
   \<and> translate_texts u (\<lambda>n text. Some [0x201C, 0x4F60, 0x597D, 0x201D])
         (entry (str ''Hello'') [] @ [LF]) None
       = Inl (NameError unbound_name)
   \<and> sanitize (str ''Line 1'' @ [BACKSLASH, SPACE, 110] @ str ''Line 2'')
       = str ''Line 1'' @ [LF] @ str ''Line 2''"
  by (simp add: file_defs text_defs literal_defs sanitize_def hello_pot_def)

text \<open>
  C6. The claim: the line \<^verbatim>\<open>"Language: zh_CN\n"\<close> is inserted right after the project
  line, once, when no language declaration follows it, and the document is otherwise
  left untouched. The template file is the head of an Odoo template, \<open>header_pot\<close>; its
  only entry has the empty \<^verbatim>\<open>msgid\<close>, so the run returns. The file written is
  \<open>header_as_patched\<close>, not \<open>header_with_language\<close>: the project line is cut in two by a
  line feed character and the language text stands inside it, after two quotes. On a
  header that declares its language already the code inserts the same text again.
\<close>

theorem C6_language_line_inside_project_line:
  "translate_po_file u translator [pot_path \<mapsto> header_pot] pot_path po_path
     = (Inr \<lparr>written = header_as_patched, total_untranslated = 0,
             final = \<lparr>current_count = 0, service_calls = 0\<rparr>\<rparr>,
        [pot_path \<mapsto> header_pot, po_path \<mapsto> header_as_patched])
   \<and> header_as_patched \<noteq> header_with_language
   \<and> header_patch declared_header =
       [DQUOTE] @ str ''Project-Id-Version: Odoo Server'' @ [LF]
       @ [DQUOTE, DQUOTE] @ str ''Language: zh_CN'' @ [BACKSLASH, 110, DQUOTE]
       @ str '' 17.0'' @ [BACKSLASH, 110, DQUOTE, LF]
       @ [DQUOTE] @ str ''Language: zh_CN'' @ [BACKSLASH, 110, DQUOTE, LF]"
  by (simp add: file_defs text_defs literal_defs header_pot_def header_as_patched_def
        header_with_language_def declared_header_def)

text \<open>
  C7. The claim: when the service raises for one entry, the pair is emitted unchanged,
  the other entries are processed, the document is written and the final count shows
  the failure. The template file holds \<^verbatim>\<open>msgid "Cancel"\<close> with an empty \<^verbatim>\<open>msgstr\<close> and
  every call of the service raises: the run raises \<open>NameError\<close> from the count of the
  work remaining, before any call of the service; nothing is written and no count is
  reported.
\<close>

theorem C7_service_failure_run_raises:
  "translate_po_file u (\<lambda>n text. None) [pot_path \<mapsto> cancel_pot] pot_path po_path
     = (Inl (NameError unbound_name), [pot_path \<mapsto> cancel_pot])
   \<and> translate_texts u (\<lambda>n text. None) (entry (str ''Cancel'') [] @ [LF]) None
       = Inl (NameError unbound_name)"
  by (simp add: file_defs text_defs literal_defs cancel_pot_def)

text \<open>
  C8. The claim: on every text made of digits and the characters \<^verbatim>\<open>.,:-_/\<close> and the
  backslash only, \<open>should_translate\<close> returns false. On \<^verbatim>\<open>123\<close> the call raises
  \<open>NameError\<close> before the test of line 117 is reached.
\<close>

theorem C8_numeric_text_raises:
  "should_translate u (str ''123'') = Inl (NameError unbound_name)"
  by (simp add: should_translate_cases code_signs_def str_def)

text \<open>
  C9, as stated: the text outside the matched pairs passes from the template to the
  output byte for byte. In \<open>crlf_pot\<close> every line ends with the bytes 0D 0A. The run
  returns, and every line of the file written ends with the byte 0A alone: the two
  comment lines, which belong to no pair, have lost a byte each.
\<close>

theorem C9_crlf_counterexample:
  "translate_po_file ascii_ucd (\<lambda>n text. None) [pot_path \<mapsto> crlf_pot] pot_path po_path
     = (Inr \<lparr>written = str ''# Odoo'' @ [LF] @ entry [] [] @ [LF] @ str ''# end'' @ [LF],
             total_untranslated = 0,
             final = \<lparr>current_count = 0, service_calls = 0\<rparr>\<rparr>,
        [pot_path \<mapsto> crlf_pot,
         po_path \<mapsto> str ''# Odoo'' @ [LF] @ entry [] [] @ [LF] @ str ''# end'' @ [LF]])
   \<and> take 8 crlf_pot = str ''# Odoo'' @ [CR, LF]
   \<and> take 8 (str ''# Odoo'' @ [LF] @ entry [] [] @ [LF] @ str ''# end'' @ [LF])
       = str ''# Odoo'' @ [LF] @ str ''m''"
  by (simp add: file_defs text_defs literal_defs crlf_pot_def)

text \<open>
  C9, amended. The text outside the matched pairs passes from the template to the
  output as text, not as bytes. Whenever the run returns, the template file decodes from
  UTF-8, with \<^verbatim>\<open>\r\n\<close> and \<^verbatim>\<open>\r\<close> read as line feeds, to a text \<open>content\<close>; the text
  written is the header patch of \<open>content\<close> with nothing but its matched pairs replaced,
  one replacement for each pair; the output file holds the UTF-8 bytes of that text and
  decodes back to it; and no other file is touched.
\<close>

theorem C9_only_pairs_rewritten:
  assumes "translate_po_file u translator fs input_file output_file = (Inr r, fs')"
  shows "\<exists>input_bytes content rs out_bytes.
           fs input_file = Some input_bytes
         \<and> read_text input_bytes = Inr content
         \<and> content = rewrite_pairs (map group0 (finditer content)) content
         \<and> length rs = length (finditer content)
         \<and> written r = header_patch (rewrite_pairs rs content)
         \<and> utf8_encode (written r) = Inr out_bytes
         \<and> utf8_decode out_bytes = Inr (written r)
         \<and> fs' = fs(output_file \<mapsto> out_bytes)"
proof -
  from assms obtain input_bytes content existing_content out_bytes where
    inp: "fs input_file = Some input_bytes" "read_text input_bytes = Inr content"
    and texts: "translate_texts u translator content existing_content = Inr r"
    and outp: "utf8_encode (written r) = Inr out_bytes" "fs' = fs(output_file \<mapsto> out_bytes)"
    by (rule translate_po_file_Inr)
  from texts obtain out st where
    "re_sub (translate_match u translator (load_existing existing_content))
       \<lparr>current_count = 0, service_calls = 0\<rparr> content = Inr (out, st)"
    and "written r = header_patch out"
    by (auto elim!: translate_texts_Inr)
  then obtain rs where "length rs = length (finditer content)"
    and "written r = header_patch (rewrite_pairs rs content)"
    by (auto dest!: re_sub_frame list_all2_lengthD)
  moreover from outp(1) have "utf8_decode out_bytes = Inr (written r)"
    by (rule utf8_roundtrip)
  moreover have "content = rewrite_pairs (map group0 (finditer content)) content"
    by (simp add: rewrite_pairs_same)
  ultimately show ?thesis using inp outp by blast
qed

theorem C9_only_pairs_rewritten_witness:
  "translate_po_file ascii_ucd (\<lambda>n text. None)
       [pot_path \<mapsto> headed_template, po_path \<mapsto> order_po] pot_path po_path
     = (Inr \<lparr>written =
               entry [] [] @ [LF]
               @ [DQUOTE] @ str ''Project-Id-Version: Odoo Server'' @ [LF]
               @ [DQUOTE, DQUOTE] @ str ''Language: zh_CN'' @ [BACKSLASH, 110, DQUOTE]
               @ str '' 17.0'' @ [BACKSLASH, 110, DQUOTE, LF]
               @ [LF] @ str ''#. module: sale'' @ [LF]
               @ entry (str ''order_line'') [0x8BA2, 0x5355, 0x884C] @ [LF],
             total_untranslated = 0,
             final = \<lparr>current_count = 0, service_calls = 0\<rparr>\<rparr>,
        [pot_path \<mapsto> headed_template,
         po_path \<mapsto>
           entry [] [] @ [LF]
           @ [DQUOTE] @ str ''Project-Id-Version: Odoo Server'' @ [LF]
           @ [DQUOTE, DQUOTE] @ str ''Language: zh_CN'' @ [BACKSLASH, 110, DQUOTE]
           @ str '' 17.0'' @ [BACKSLASH, 110, DQUOTE, LF]
           @ [LF] @ str ''#. module: sale'' @ [LF]
           @ entry (str ''order_line'')
               [0xE8, 0xAE, 0xA2, 0xE5, 0x8D, 0x95, 0xE8, 0xA1, 0x8C] @ [LF]])
   \<and> (\<exists>rs. length rs = length (finditer headed_template)
          \<and> entry [] [] @ [LF]
              @ [DQUOTE] @ str ''Project-Id-Version: Odoo Server'' @ [LF]
              @ [DQUOTE, DQUOTE] @ str ''Language: zh_CN'' @ [BACKSLASH, 110, DQUOTE]
              @ str '' 17.0'' @ [BACKSLASH, 110, DQUOTE, LF]
              @ [LF] @ str ''#. module: sale'' @ [LF]
              @ entry (str ''order_line'') [0x8BA2, 0x5355, 0x884C] @ [LF]
            = header_patch (rewrite_pairs rs headed_template))"
proof -
  have decoded: "read_text headed_template = Inr headed_template"
    by (simp add: file_defs literal_defs headed_template_def)
  have run: "translate_po_file ascii_ucd (\<lambda>n text. None)
       [pot_path \<mapsto> headed_template, po_path \<mapsto> order_po] pot_path po_path
     = (Inr \<lparr>written =
               entry [] [] @ [LF]
               @ [DQUOTE] @ str ''Project-Id-Version: Odoo Server'' @ [LF]
               @ [DQUOTE, DQUOTE] @ str ''Language: zh_CN'' @ [BACKSLASH, 110, DQUOTE]
               @ str '' 17.0'' @ [BACKSLASH, 110, DQUOTE, LF]
               @ [LF] @ str ''#. module: sale'' @ [LF]
               @ entry (str ''order_line'') [0x8BA2, 0x5355, 0x884C] @ [LF],
             total_untranslated = 0,
             final = \<lparr>current_count = 0, service_calls = 0\<rparr>\<rparr>,
        [pot_path \<mapsto> headed_template,
         po_path \<mapsto>
           entry [] [] @ [LF]
           @ [DQUOTE] @ str ''Project-Id-Version: Odoo Server'' @ [LF]
           @ [DQUOTE, DQUOTE] @ str ''Language: zh_CN'' @ [BACKSLASH, 110, DQUOTE]
           @ str '' 17.0'' @ [BACKSLASH, 110, DQUOTE, LF]
           @ [LF] @ str ''#. module: sale'' @ [LF]
           @ entry (str ''order_line'')
               [0xE8, 0xAE, 0xA2, 0xE5, 0x8D, 0x95, 0xE8, 0xA1, 0x8C] @ [LF]])"
    by (simp add: file_defs text_defs literal_defs headed_template_def order_po_def)
  from C9_only_pairs_rewritten [OF run] obtain input_bytes content rs where
    "[pot_path \<mapsto> headed_template, po_path \<mapsto> order_po] pot_path = Some input_bytes"
    and "read_text input_bytes = Inr content"
    and "length rs = length (finditer content)"
    and "entry [] [] @ [LF]
              @ [DQUOTE] @ str ''Project-Id-Version: Odoo Server'' @ [LF]
              @ [DQUOTE, DQUOTE] @ str ''Language: zh_CN'' @ [BACKSLASH, 110, DQUOTE]
              @ str '' 17.0'' @ [BACKSLASH, 110, DQUOTE, LF]
              @ [LF] @ str ''#. module: sale'' @ [LF]
              @ entry (str ''order_line'') [0x8BA2, 0x5355, 0x884C] @ [LF]
            = header_patch (rewrite_pairs rs content)"
    by auto
  moreover from this(1) have "input_bytes = headed_template"
    by (simp add: pot_path_def po_path_def str_def)
  ultimately have "\<exists>rs. length rs = length (finditer headed_template)
          \<and> entry [] [] @ [LF]
              @ [DQUOTE] @ str ''Project-Id-Version: Odoo Server'' @ [LF]
              @ [DQUOTE, DQUOTE] @ str ''Language: zh_CN'' @ [BACKSLASH, 110, DQUOTE]
              @ str '' 17.0'' @ [BACKSLASH, 110, DQUOTE, LF]
              @ [LF] @ str ''#. module: sale'' @ [LF]
              @ entry (str ''order_line'') [0x8BA2, 0x5355, 0x884C] @ [LF]
            = header_patch (rewrite_pairs rs headed_template)"
    using decoded by auto
  with run show ?thesis by blast
qed



end
